theory Spec2Isabelle
  imports Main "HOL-Library.Word" "HOL-Library.Code_Target_Nat"
begin

section \<open>Python values, exceptions and the struct module\<close>

text \<open>
  The module \<^verbatim>\<open>mdng\<close> is Python 2 code (\<^verbatim>\<open>xrange\<close>, \<^verbatim>\<open>iterkeys\<close>, \<^verbatim>\<open>len(data) / 2\<close>
  used as an integer): a \<^verbatim>\<open>str\<close> is a byte string, integers are unbounded.
  Exceptions are values of the type \<open>error\<close>; an operation that may raise returns
  \<open>error + 'a\<close>, with \<open>Inl\<close> for the exception.
\<close>

type_synonym byte = "8 word"

text \<open>A Python float is a C double, kept as its 64 bits: no arithmetic on it is modelled.\<close>

type_synonym pyfloat = "64 word"

datatype pyval =
    PyInt int
  | PyFloat pyfloat
  | PyStr "byte list"
  | PyTuple "pyval list"

datatype error =
    SyntaxError string
  | RuntimeError pyval
  | ValueError
  | KeyError
  | IndexError
  | TypeError
  | NameError string
  | StructError
  | IOError

definition bind_err :: "error + 'a \<Rightarrow> ('a \<Rightarrow> error + 'b) \<Rightarrow> error + 'b" where
  "bind_err m f = (case m of Inl e \<Rightarrow> Inl e | Inr x \<Rightarrow> f x)"

fun mapM_err :: "('a \<Rightarrow> error + 'b) \<Rightarrow> 'a list \<Rightarrow> error + 'b list" where
  "mapM_err f [] = Inr []"
| "mapM_err f (x # xs) =
     bind_err (f x) (\<lambda>y. bind_err (mapM_err f xs) (\<lambda>ys. Inr (y # ys)))"

text \<open>\<^verbatim>\<open>II = b"II"\<close> (little-endian) and \<^verbatim>\<open>MM = b"MM"\<close> (big-endian).\<close>

definition II :: "byte list" where
  "II = [0x49, 0x49]"

definition MM :: "byte list" where
  "MM = [0x4D, 0x4D]"

text \<open>The byte order character of a struct format: \<^verbatim>\<open>"<"\<close> or \<^verbatim>\<open>">"\<close>.\<close>

datatype byteorder = Little | Big

text \<open>The struct format codes the module uses.\<close>

datatype fmt = Fmt_B | Fmt_b | Fmt_H | Fmt_h | Fmt_L | Fmt_l | Fmt_f | Fmt_d

fun fmt_size :: "fmt \<Rightarrow> nat" where
  "fmt_size Fmt_B = 1"
| "fmt_size Fmt_b = 1"
| "fmt_size Fmt_H = 2"
| "fmt_size Fmt_h = 2"
| "fmt_size Fmt_L = 4"
| "fmt_size Fmt_l = 4"
| "fmt_size Fmt_f = 4"
| "fmt_size Fmt_d = 8"

fun fmt_signed :: "fmt \<Rightarrow> bool" where
  "fmt_signed Fmt_b = True"
| "fmt_signed Fmt_h = True"
| "fmt_signed Fmt_l = True"
| "fmt_signed _ = False"

fun fmt_float :: "fmt \<Rightarrow> bool" where
  "fmt_float Fmt_f = True"
| "fmt_float Fmt_d = True"
| "fmt_float _ = False"

text \<open>
  The conversions of struct that involve a floating-point number (the formats \<^verbatim>\<open>f\<close> and
  \<^verbatim>\<open>d\<close>, and a float given to an integer format) are parameters of the model:
  \<open>pack_fl\<close> packs one value, \<open>unpack_fl\<close> reads one float from a chunk of the
  format's size.
\<close>

record float_codec =
  pack_fl :: "fmt \<Rightarrow> byteorder \<Rightarrow> pyval \<Rightarrow> error + byte list"
  unpack_fl :: "fmt \<Rightarrow> byteorder \<Rightarrow> byte list \<Rightarrow> pyfloat"

text \<open>Integers as bytes, least significant byte first, and back.\<close>

fun le_bytes :: "nat \<Rightarrow> int \<Rightarrow> byte list" where
  "le_bytes 0 i = []"
| "le_bytes (Suc n) i = word_of_int i # le_bytes n (i div 256)"

fun le_int :: "byte list \<Rightarrow> int" where
  "le_int [] = 0"
| "le_int (b # bs) = uint b + 256 * le_int bs"

definition ordered :: "byteorder \<Rightarrow> byte list \<Rightarrow> byte list" where
  "ordered bo bs = (case bo of Little \<Rightarrow> bs | Big \<Rightarrow> rev bs)"

text \<open>
  \<^verbatim>\<open>struct.pack\<close> of one integer: a value outside the format's range raises
  \<^verbatim>\<open>struct.error\<close>; a signed value is stored in two's complement.
\<close>

definition pack_int :: "fmt \<Rightarrow> byteorder \<Rightarrow> int \<Rightarrow> error + byte list" where
  "pack_int f bo i =
     (let w = fmt_size f in
      if fmt_signed f then
        (if - (2 ^ (8 * w - 1)) \<le> i \<and> i < 2 ^ (8 * w - 1)
         then Inr (ordered bo (le_bytes w (i mod 2 ^ (8 * w))))
         else Inl StructError)
      else
        (if 0 \<le> i \<and> i < 2 ^ (8 * w)
         then Inr (ordered bo (le_bytes w i))
         else Inl StructError))"

definition unpack_int :: "fmt \<Rightarrow> byteorder \<Rightarrow> byte list \<Rightarrow> int" where
  "unpack_int f bo bs =
     (let w = fmt_size f; u = le_int (ordered bo bs) in
      if fmt_signed f \<and> 2 ^ (8 * w - 1) \<le> u then u - 2 ^ (8 * w) else u)"

text \<open>One argument of \<^verbatim>\<open>struct.pack\<close> under one format code.\<close>

fun pack_val :: "float_codec \<Rightarrow> fmt \<Rightarrow> byteorder \<Rightarrow> pyval \<Rightarrow> error + byte list" where
  "pack_val fc f bo (PyInt i) = (if fmt_float f then pack_fl fc f bo (PyInt i) else pack_int f bo i)"
| "pack_val fc f bo (PyFloat x) = pack_fl fc f bo (PyFloat x)"
| "pack_val fc f bo (PyStr s) = Inl StructError"
| "pack_val fc f bo (PyTuple t) = Inl StructError"

definition unpack_val :: "float_codec \<Rightarrow> fmt \<Rightarrow> byteorder \<Rightarrow> byte list \<Rightarrow> pyval" where
  "unpack_val fc f bo bs =
     (if fmt_float f then PyFloat (unpack_fl fc f bo bs) else PyInt (unpack_int f bo bs))"

text \<open>\<open>chunks k n xs\<close>: the first \<open>k\<close> consecutive slices of \<open>n\<close> elements.\<close>

primrec chunks :: "nat \<Rightarrow> nat \<Rightarrow> 'a list \<Rightarrow> 'a list list" where
  "chunks 0 n xs = []"
| "chunks (Suc k) n xs = take n xs # chunks k n (drop n xs)"

text \<open>
  \<^verbatim>\<open>len(x)\<close> and the arguments \<^verbatim>\<open>*x\<close> of a call: a tuple gives its elements, a
  string its characters (strings of length one), a number raises \<^verbatim>\<open>TypeError\<close>.
\<close>

fun py_len :: "pyval \<Rightarrow> error + nat" where
  "py_len (PyStr s) = Inr (length s)"
| "py_len (PyTuple t) = Inr (length t)"
| "py_len _ = Inl TypeError"

fun py_args :: "pyval \<Rightarrow> error + pyval list" where
  "py_args (PyStr s) = Inr (map (\<lambda>b. PyStr [b]) s)"
| "py_args (PyTuple t) = Inr t"
| "py_args _ = Inl TypeError"

text \<open>
  \<^verbatim>\<open>struct.pack("%s%dX" % (endian, len(values)), *values)\<close>: as many codes as
  arguments, each packed in turn.
\<close>

definition struct_pack :: "float_codec \<Rightarrow> fmt \<Rightarrow> byteorder \<Rightarrow> pyval \<Rightarrow> error + pyval" where
  "struct_pack fc f bo values =
     bind_err (py_len values) (\<lambda>n.
     bind_err (py_args values) (\<lambda>args.
     bind_err (mapM_err (pack_val fc f bo) args) (\<lambda>bss.
     Inr (PyStr (concat bss)))))"

text \<open>
  \<^verbatim>\<open>struct.unpack("%s%dX" % (endian, len(data) / size), data)\<close>: the data must be a
  string of exactly as many bytes as the format asks for, otherwise \<^verbatim>\<open>struct.error\<close>.
\<close>

definition struct_unpack :: "float_codec \<Rightarrow> fmt \<Rightarrow> byteorder \<Rightarrow> nat \<Rightarrow> pyval \<Rightarrow> error + pyval list" where
  "struct_unpack fc f bo dv data =
     bind_err (py_len data) (\<lambda>len.
       let k = len div dv in
       (case data of
          PyStr s \<Rightarrow>
            if length s = k * fmt_size f
            then Inr (map (unpack_val fc f bo) (chunks k (fmt_size f) s))
            else Inl StructError
        | _ \<Rightarrow> Inl StructError))"

text \<open>The one-value packers and readers at the head of the module.\<close>

definition ol16 :: "int \<Rightarrow> error + byte list" where
  "ol16 i = pack_int Fmt_H Little i"

definition ol32 :: "int \<Rightarrow> error + byte list" where
  "ol32 i = pack_int Fmt_L Little i"

definition ob16 :: "int \<Rightarrow> error + byte list" where
  "ob16 i = pack_int Fmt_H Big i"

definition ob32 :: "int \<Rightarrow> error + byte list" where
  "ob32 i = pack_int Fmt_L Big i"

text \<open>\<^verbatim>\<open>c[lo:hi]\<close> for \<open>0 \<le> lo\<close>.\<close>

definition slice :: "'a list \<Rightarrow> nat \<Rightarrow> nat \<Rightarrow> 'a list" where
  "slice c lo hi = take (hi - lo) (drop lo c)"

text \<open>\<^verbatim>\<open>struct.unpack(fmt, s)[0]\<close> for a format of one code.\<close>

definition unpack_one :: "fmt \<Rightarrow> byteorder \<Rightarrow> byte list \<Rightarrow> error + int" where
  "unpack_one f bo s =
     (if length s = fmt_size f then Inr (unpack_int f bo s) else Inl StructError)"

definition il16 :: "byte list \<Rightarrow> nat \<Rightarrow> error + int" where
  "il16 c off = unpack_one Fmt_H Little (slice c off (off + 2))"

definition il32 :: "byte list \<Rightarrow> nat \<Rightarrow> error + int" where
  "il32 c off = unpack_one Fmt_L Little (slice c off (off + 4))"

definition ib16 :: "byte list \<Rightarrow> nat \<Rightarrow> error + int" where
  "ib16 c off = unpack_one Fmt_H Big (slice c off (off + 2))"

text \<open>As in the source, \<open>ib32\<close> slices two bytes for the four-byte format.\<close>

definition ib32 :: "byte list \<Rightarrow> nat \<Rightarrow> error + int" where
  "ib32 c off = unpack_one Fmt_L Big (slice c off (off + 2))"

definition STRIPOFFSETS :: nat where "STRIPOFFSETS = 273"
definition STRIPBYTECOUNTS :: nat where "STRIPBYTECOUNTS = 279"
definition SUBIFDS :: nat where "SUBIFDS = 330"
definition EXIFIFD :: nat where "EXIFIFD = 34665"
definition XMP :: nat where "XMP = 700"

definition PREFIXES :: "byte list list" where
  "PREFIXES = [[0x4D, 0x4D, 0x00, 0x2A], [0x49, 0x49, 0x2A, 0x00], [0x49, 0x49, 0xBC, 0x00]]"

section \<open>The tag directory\<close>

text \<open>
  A dictionary is an association list read with \<open>map_of\<close>: the first pair of a key is
  its entry, \<open>dict_keys\<close> lists every key once.
\<close>

type_synonym ('k, 'v) dict = "('k \<times> 'v) list"

definition dict_keys :: "('k, 'v) dict \<Rightarrow> 'k list" where
  "dict_keys d = remdups (map fst d)"

definition dict_get :: "('k, 'v) dict \<Rightarrow> 'k \<Rightarrow> error + 'v" where
  "dict_get d k = (case map_of d k of None \<Rightarrow> Inl KeyError | Some v \<Rightarrow> Inr v)"

fun dict_set :: "('k, 'v) dict \<Rightarrow> 'k \<Rightarrow> 'v \<Rightarrow> ('k, 'v) dict" where
  "dict_set [] k v = [(k, v)]"
| "dict_set ((k', v') # d) k v = (if k' = k then (k, v) # d else (k', v') # dict_set d k v)"

text \<open>
  The state of an \<^verbatim>\<open>ImageFileDirectory\<close>. The constructor selects the four
  functions \<^verbatim>\<open>o16\<close>, \<^verbatim>\<open>o32\<close>, \<^verbatim>\<open>i16\<close>, \<^verbatim>\<open>i32\<close> together with \<^verbatim>\<open>endian\<close>, so the
  record keeps \<open>endian\<close> and the four are functions of it. \<^verbatim>\<open>next\<close> is
  \<open>next_ifd\<close> here, \<open>None\<close> for Python's \<^verbatim>\<open>None\<close>.
\<close>

record ifd =
  prefix :: "byte list"
  endian :: byteorder
  tagdata :: "(nat, pyval) dict"
  tagtype :: "(nat, nat) dict"
  next_ifd :: "int option"

definition o16 :: "ifd \<Rightarrow> int \<Rightarrow> error + byte list" where
  "o16 self = (case endian self of Big \<Rightarrow> ob16 | Little \<Rightarrow> ol16)"

definition o32 :: "ifd \<Rightarrow> int \<Rightarrow> error + byte list" where
  "o32 self = (case endian self of Big \<Rightarrow> ob32 | Little \<Rightarrow> ol32)"

definition i16 :: "ifd \<Rightarrow> byte list \<Rightarrow> nat \<Rightarrow> error + int" where
  "i16 self = (case endian self of Big \<Rightarrow> ib16 | Little \<Rightarrow> il16)"

definition i32 :: "ifd \<Rightarrow> byte list \<Rightarrow> nat \<Rightarrow> error + int" where
  "i32 self = (case endian self of Big \<Rightarrow> ib32 | Little \<Rightarrow> il32)"

definition reset :: "ifd \<Rightarrow> ifd" where
  "reset self = self\<lparr>tagdata := [], tagtype := [], next_ifd := None\<rparr>"

definition ImageFileDirectory :: "byte list \<Rightarrow> error + ifd" where
  "ImageFileDirectory pfx =
     (let p = take 2 pfx in
      if p = MM then
        Inr (reset \<lparr>prefix = p, endian = Big, tagdata = [], tagtype = [], next_ifd = None\<rparr>)
      else if p = II then
        Inr (reset \<lparr>prefix = p, endian = Little, tagdata = [], tagtype = [], next_ifd = None\<rparr>)
      else Inl (SyntaxError ''not a TIFF IFD''))"

subsection \<open>Load and store primitives\<close>

definition unknown :: "float_codec \<Rightarrow> ifd \<Rightarrow> pyval \<Rightarrow> error + pyval" where
  "unknown fc self data = Inl (RuntimeError data)"

definition load_unsigned_byte :: "float_codec \<Rightarrow> ifd \<Rightarrow> pyval \<Rightarrow> error + pyval" where
  "load_unsigned_byte fc self data =
     bind_err (struct_unpack fc Fmt_B Little 1 data) (\<lambda>l. Inr (PyTuple l))"

definition load_string :: "float_codec \<Rightarrow> ifd \<Rightarrow> pyval \<Rightarrow> error + pyval" where
  "load_string fc self data = Inr data"

definition load_unsigned_short :: "float_codec \<Rightarrow> ifd \<Rightarrow> pyval \<Rightarrow> error + pyval" where
  "load_unsigned_short fc self data =
     bind_err (struct_unpack fc Fmt_H (endian self) 2 data) (\<lambda>l. Inr (PyTuple l))"

definition load_unsigned_long :: "float_codec \<Rightarrow> ifd \<Rightarrow> pyval \<Rightarrow> error + pyval" where
  "load_unsigned_long fc self data =
     bind_err (struct_unpack fc Fmt_L (endian self) 4 data) (\<lambda>l. Inr (PyTuple l))"

text \<open>\<^verbatim>\<open>tuple((n, d) for n, d in zip(l[:-1], l[1:]))\<close>\<close>

definition pair_up :: "pyval list \<Rightarrow> pyval" where
  "pair_up l = PyTuple (map (\<lambda>(n, d). PyTuple [n, d]) (zip (butlast l) (tl l)))"

definition load_unsigned_rational :: "float_codec \<Rightarrow> ifd \<Rightarrow> pyval \<Rightarrow> error + pyval" where
  "load_unsigned_rational fc self data =
     bind_err (struct_unpack fc Fmt_L (endian self) 4 data) (\<lambda>l. Inr (pair_up l))"

definition load_signed_byte :: "float_codec \<Rightarrow> ifd \<Rightarrow> pyval \<Rightarrow> error + pyval" where
  "load_signed_byte fc self data =
     bind_err (struct_unpack fc Fmt_b Little 1 data) (\<lambda>l. Inr (PyTuple l))"

definition load_undefined :: "float_codec \<Rightarrow> ifd \<Rightarrow> pyval \<Rightarrow> error + pyval" where
  "load_undefined fc self data = Inr data"

definition load_signed_short :: "float_codec \<Rightarrow> ifd \<Rightarrow> pyval \<Rightarrow> error + pyval" where
  "load_signed_short fc self data =
     bind_err (struct_unpack fc Fmt_h (endian self) 2 data) (\<lambda>l. Inr (PyTuple l))"

definition load_signed_long :: "float_codec \<Rightarrow> ifd \<Rightarrow> pyval \<Rightarrow> error + pyval" where
  "load_signed_long fc self data =
     bind_err (struct_unpack fc Fmt_l (endian self) 4 data) (\<lambda>l. Inr (PyTuple l))"

definition load_signed_rational :: "float_codec \<Rightarrow> ifd \<Rightarrow> pyval \<Rightarrow> error + pyval" where
  "load_signed_rational fc self data =
     bind_err (struct_unpack fc Fmt_l (endian self) 4 data) (\<lambda>l. Inr (pair_up l))"

definition load_float :: "float_codec \<Rightarrow> ifd \<Rightarrow> pyval \<Rightarrow> error + pyval" where
  "load_float fc self data =
     bind_err (struct_unpack fc Fmt_f (endian self) 4 data) (\<lambda>l. Inr (PyTuple l))"

definition load_double :: "float_codec \<Rightarrow> ifd \<Rightarrow> pyval \<Rightarrow> error + pyval" where
  "load_double fc self data =
     bind_err (struct_unpack fc Fmt_d (endian self) 8 data) (\<lambda>l. Inr (PyTuple l))"

text \<open>
  \<^verbatim>\<open>load_ifds\<close> and \<^verbatim>\<open>store_ifds\<close> call \<^verbatim>\<open>load_unsigned_long(self, data)\<close> and
  \<^verbatim>\<open>store_unsigned_long(self, values)\<close> as global names. The names are attributes of the
  class, not globals of the module, so the call raises \<^verbatim>\<open>NameError\<close>.
\<close>

definition load_ifds :: "float_codec \<Rightarrow> ifd \<Rightarrow> pyval \<Rightarrow> error + pyval" where
  "load_ifds fc self data = Inl (NameError ''load_unsigned_long'')"

definition load_dispatch :: "nat \<Rightarrow> (nat \<times> (float_codec \<Rightarrow> ifd \<Rightarrow> pyval \<Rightarrow> error + pyval)) option" where
  "load_dispatch = map_of
     [(1, (1, load_unsigned_byte)),
      (2, (1, load_string)),
      (3, (2, load_unsigned_short)),
      (4, (4, load_unsigned_long)),
      (5, (8, load_unsigned_rational)),
      (6, (1, load_signed_byte)),
      (7, (1, load_undefined)),
      (8, (2, load_signed_short)),
      (9, (4, load_signed_long)),
      (10, (8, load_signed_rational)),
      (11, (4, load_float)),
      (12, (8, load_double)),
      (13, (4, load_ifds))]"

definition store_unsigned_byte :: "float_codec \<Rightarrow> ifd \<Rightarrow> pyval \<Rightarrow> error + pyval" where
  "store_unsigned_byte fc self values = struct_pack fc Fmt_B Little values"

definition store_string :: "float_codec \<Rightarrow> ifd \<Rightarrow> pyval \<Rightarrow> error + pyval" where
  "store_string fc self v = Inr v"

definition store_unsigned_short :: "float_codec \<Rightarrow> ifd \<Rightarrow> pyval \<Rightarrow> error + pyval" where
  "store_unsigned_short fc self values = struct_pack fc Fmt_H (endian self) values"

definition store_unsigned_long :: "float_codec \<Rightarrow> ifd \<Rightarrow> pyval \<Rightarrow> error + pyval" where
  "store_unsigned_long fc self values = struct_pack fc Fmt_L (endian self) values"

definition store_signed_byte :: "float_codec \<Rightarrow> ifd \<Rightarrow> pyval \<Rightarrow> error + pyval" where
  "store_signed_byte fc self values = struct_pack fc Fmt_b Little values"

definition store_undefined :: "float_codec \<Rightarrow> ifd \<Rightarrow> pyval \<Rightarrow> error + pyval" where
  "store_undefined fc self v = Inr v"

definition store_signed_short :: "float_codec \<Rightarrow> ifd \<Rightarrow> pyval \<Rightarrow> error + pyval" where
  "store_signed_short fc self values = struct_pack fc Fmt_h (endian self) values"

definition store_signed_long :: "float_codec \<Rightarrow> ifd \<Rightarrow> pyval \<Rightarrow> error + pyval" where
  "store_signed_long fc self values = struct_pack fc Fmt_l (endian self) values"

definition store_float :: "float_codec \<Rightarrow> ifd \<Rightarrow> pyval \<Rightarrow> error + pyval" where
  "store_float fc self values = struct_pack fc Fmt_f (endian self) values"

definition store_double :: "float_codec \<Rightarrow> ifd \<Rightarrow> pyval \<Rightarrow> error + pyval" where
  "store_double fc self values = struct_pack fc Fmt_d (endian self) values"

definition store_ifds :: "float_codec \<Rightarrow> ifd \<Rightarrow> pyval \<Rightarrow> error + pyval" where
  "store_ifds fc self values = Inl (NameError ''store_unsigned_long'')"

definition store_dispatch :: "nat \<Rightarrow> (float_codec \<Rightarrow> ifd \<Rightarrow> pyval \<Rightarrow> error + pyval) option" where
  "store_dispatch = map_of
     [(1, store_unsigned_byte),
      (2, store_string),
      (3, store_unsigned_short),
      (4, store_unsigned_long),
      (5, unknown),
      (6, store_signed_byte),
      (7, store_undefined),
      (8, store_signed_short),
      (9, store_signed_long),
      (10, unknown),
      (11, store_float),
      (12, store_double),
      (13, store_ifds)]"

subsection \<open>The dictionary interface\<close>

text \<open>\<^verbatim>\<open>self.load_dispatch[self.tagtype[tag]][1](self, self.tagdata[tag])\<close>\<close>

definition getitem :: "float_codec \<Rightarrow> ifd \<Rightarrow> nat \<Rightarrow> error + pyval" where
  "getitem fc self tag =
     bind_err (dict_get (tagtype self) tag) (\<lambda>typ.
     (case load_dispatch typ of
        None \<Rightarrow> Inl KeyError
      | Some (w, loader) \<Rightarrow>
          bind_err (dict_get (tagdata self) tag) (\<lambda>data. loader fc self data)))"

fun is_tuple_or_str :: "pyval \<Rightarrow> bool" where
  "is_tuple_or_str (PyTuple t) = True"
| "is_tuple_or_str (PyStr s) = True"
| "is_tuple_or_str _ = False"

text \<open>
  \<^verbatim>\<open>__setitem__\<close> returns the outcome together with the directory as the call leaves
  it, so that an assignment that raises still shows its effect on the directory.
\<close>

definition setitem :: "float_codec \<Rightarrow> ifd \<Rightarrow> nat \<Rightarrow> pyval \<Rightarrow> (error + unit) \<times> ifd" where
  "setitem fc self tag v =
     (if \<not> is_tuple_or_str v then (Inl ValueError, self)
      else if tag \<notin> set (dict_keys (tagtype self)) then (Inl KeyError, self)
      else
        (case bind_err (dict_get (tagtype self) tag) (\<lambda>typ.
                (case store_dispatch typ of
                   None \<Rightarrow> Inl KeyError
                 | Some storer \<Rightarrow> storer fc self v)) of
           Inl e \<Rightarrow> (Inl e, self)
         | Inr data \<Rightarrow> (Inr (), self\<lparr>tagdata := dict_set (tagdata self) tag data\<rparr>)))"

text \<open>
  The codec of the dispatch tables, by field type: \<open>decode\<close> calls the loader that
  \<^verbatim>\<open>load_dispatch\<close> lists for the type, \<open>encode\<close> the storer of \<^verbatim>\<open>store_dispatch\<close>.
\<close>

definition decode :: "float_codec \<Rightarrow> ifd \<Rightarrow> nat \<Rightarrow> pyval \<Rightarrow> error + pyval" where
  "decode fc self typ data =
     (case load_dispatch typ of
        None \<Rightarrow> Inl KeyError
      | Some (w, loader) \<Rightarrow> loader fc self data)"











section \<open>Streams\<close>

text \<open>
  A seekable byte stream is its content and its position, \<open>Stream c p\<close>. \<^verbatim>\<open>read(n)\<close> gives the
  bytes that are there, fewer than \<open>n\<close> at the end of the stream, and all the rest for a
  negative \<open>n\<close>. \<^verbatim>\<open>seek\<close> takes a non-negative integer: a negative offset raises
  \<^verbatim>\<open>IOError\<close>, and a value that is no integer raises \<^verbatim>\<open>TypeError\<close>, as the streams of
  the \<^verbatim>\<open>io\<close> module do. \<^verbatim>\<open>write\<close> overwrites from the position on and extends the
  stream, with zero bytes in between where the position is beyond the end.
\<close>

datatype stream = Stream (content: "byte list") (pos: nat)

fun fp_read :: "stream \<Rightarrow> int \<Rightarrow> byte list \<times> stream" where
  "fp_read (Stream c p) n =
     (let rest = drop p c;
          data = (if n < 0 then rest else take (nat n) rest)
      in (data, Stream c (p + length data)))"

fun fp_tell :: "stream \<Rightarrow> nat" where
  "fp_tell (Stream c p) = p"

fun fp_seek :: "stream \<Rightarrow> pyval \<Rightarrow> error + stream" where
  "fp_seek (Stream c p) (PyInt i) = (if i < 0 then Inl IOError else Inr (Stream c (nat i)))"
| "fp_seek fp _ = Inl TypeError"

fun fp_write :: "stream \<Rightarrow> byte list \<Rightarrow> stream" where
  "fp_write (Stream c p) bs =
     (if bs = [] then Stream c p
      else
        (let c1 = c @ replicate (p - length c) 0
         in Stream (take p c1 @ bs @ drop (p + length bs) c1) (p + length bs)))"

fun fp_write_val :: "stream \<Rightarrow> pyval \<Rightarrow> error + stream" where
  "fp_write_val fp (PyStr s) = Inr (fp_write fp s)"
| "fp_write_val fp _ = Inl TypeError"

section \<open>Loading a directory\<close>

text \<open>\<^verbatim>\<open>struct.unpack(self.endian + "HHL4s", fp.read(12))\<close>\<close>

definition unpack_entry :: "byteorder \<Rightarrow> byte list \<Rightarrow> error + (nat \<times> nat \<times> nat \<times> byte list)" where
  "unpack_entry bo r =
     (if length r = 12
      then Inr (nat (unpack_int Fmt_H bo (slice r 0 2)), nat (unpack_int Fmt_H bo (slice r 2 4)),
                nat (unpack_int Fmt_L bo (slice r 4 8)), slice r 8 12)
      else Inl StructError)"

text \<open>
  The body of the loop of \<^verbatim>\<open>load\<close> is \<open>load_entry\<close>, with \<open>fetch_value\<close> for its
  part "get and expand tag value"; \<open>load_entries\<close> runs it \<open>k\<close> times. The argument of \<^verbatim>\<open>log.debug\<close> is computed whatever the logging level is, so a tag of at
  most 64 bytes is decoded as soon as it is stored, and an exception of its loader leaves
  \<^verbatim>\<open>load\<close>. The offset of an external value is an unsigned 32-bit number, so the
  \<^verbatim>\<open>seek\<close> to it, and the one back to \<^verbatim>\<open>here\<close>, set the position and cannot fail.
\<close>

fun fetch_value :: "ifd \<Rightarrow> stream \<Rightarrow> nat \<Rightarrow> byte list \<Rightarrow> byte list \<times> stream" where
  "fetch_value self (Stream c here) sz data =
     (if sz > 4 then
        (let fp_a = Stream c (nat (unpack_int Fmt_L (endian self) data));
             (d, fp_b) = fp_read fp_a (int sz)
         in (d, Stream (content fp_b) here))
      else if sz < 4 then (take sz data, Stream c here)
      else (data, Stream c here))"

definition load_entry :: "float_codec \<Rightarrow> ifd \<Rightarrow> stream \<Rightarrow> error + (ifd \<times> stream)" where
  "load_entry fc self fp =
     (let (r, fp1) = fp_read fp 12 in
      bind_err (unpack_entry (endian self) r) (\<lambda>(tag, typ, n, data).
        (case load_dispatch typ of
           None \<Rightarrow> Inr (self, fp1)
         | Some (w, loader) \<Rightarrow>
             (let size = w * n;
                  (data1, fp2) = fetch_value self fp1 size data;
                  self1 = self\<lparr>tagdata := dict_set (tagdata self) tag (PyStr data1),
                               tagtype := dict_set (tagtype self) tag typ\<rparr>
              in if size > 64 then Inr (self1, fp2)
                 else bind_err (getitem fc self1 tag) (\<lambda>v. Inr (self1, fp2))))))"

fun load_entries :: "float_codec \<Rightarrow> nat \<Rightarrow> ifd \<Rightarrow> stream \<Rightarrow> error + (ifd \<times> stream)" where
  "load_entries fc 0 self fp = Inr (self, fp)"
| "load_entries fc (Suc k) self fp =
     bind_err (load_entry fc self fp) (\<lambda>(self1, fp1). load_entries fc k self1 fp1)"

definition load :: "float_codec \<Rightarrow> ifd \<Rightarrow> stream \<Rightarrow> error + (ifd \<times> stream)" where
  "load fc self0 fp0 =
     (let self = reset self0;
          (c, fp1) = fp_read fp0 2
      in bind_err (i16 self c 0) (\<lambda>count.
         bind_err (load_entries fc (nat count) self fp1) (\<lambda>(self1, fp2).
           (let self2 = (if XMP \<in> set (dict_keys (tagtype self1))
                         then self1\<lparr>tagtype := dict_set (tagtype self1) XMP 1\<rparr>
                         else self1);
                (c4, fp3) = fp_read fp2 4
            in bind_err (i32 self2 c4 0) (\<lambda>nx.
               Inr (self2\<lparr>next_ifd := Some nx\<rparr>, fp3))))))"

section \<open>Saving a directory\<close>

text \<open>An entry of the list \<^verbatim>\<open>directory\<close>: \<^verbatim>\<open>(tag, typ, n, value, data)\<close>.\<close>

type_synonym dirent = "nat \<times> nat \<times> nat \<times> pyval \<times> pyval"

text \<open>
  Pass 1: \<open>pass1_entry\<close> is the body of the loop for one tag, from the running
  \<^verbatim>\<open>offset\<close>; \<open>pass1\<close> runs it over the sorted tags. The argument of
  \<^verbatim>\<open>log.debug\<close> decodes the tag unless it is a table of more than 64 bytes of type 1,
  2 or 7.
\<close>

definition pass1_entry :: "float_codec \<Rightarrow> ifd \<Rightarrow> nat \<Rightarrow> nat \<Rightarrow> error + (dirent \<times> nat)" where
  "pass1_entry fc self tag offset =
     bind_err (dict_get (tagtype self) tag) (\<lambda>typ.
     bind_err (dict_get (tagdata self) tag) (\<lambda>data.
     bind_err (py_len data) (\<lambda>size.
       (case load_dispatch typ of
          None \<Rightarrow> Inl KeyError
        | Some (w, loader) \<Rightarrow>
            (let n = size div w in
             bind_err (if size > 64 \<and> (typ = 1 \<or> typ = 2 \<or> typ = 7) then Inr data
                       else getitem fc self tag) (\<lambda>logged.
               if size = 4 then Inr ((tag, typ, n, data, PyStr []), offset)
               else if size < 4 then
                 (case data of
                    PyStr s \<Rightarrow> Inr ((tag, typ, n, PyStr (s @ replicate (4 - size) 0), PyStr []), offset)
                  | _ \<Rightarrow> Inl TypeError)
               else
                 bind_err (o32 self (int offset)) (\<lambda>v.
                   (let offset1 = offset + size
                    in Inr ((tag, typ, n, PyStr v, data),
                            if odd offset1 then offset1 + 1 else offset1)))))))))"

fun pass1 :: "float_codec \<Rightarrow> ifd \<Rightarrow> nat list \<Rightarrow> nat \<Rightarrow> error + (dirent list \<times> nat)" where
  "pass1 fc self [] offset = Inr ([], offset)"
| "pass1 fc self (tag # tags) offset =
     bind_err (pass1_entry fc self tag offset) (\<lambda>(entry, offset1).
     bind_err (pass1 fc self tags offset1) (\<lambda>(directory, offset2).
       Inr (entry # directory, offset2)))"

text \<open>Pass 2: the 12-byte records.\<close>

fun pass2 :: "ifd \<Rightarrow> dirent list \<Rightarrow> stream \<Rightarrow> error + stream" where
  "pass2 self [] fp = Inr fp"
| "pass2 self ((tag, typ, count, v, data) # directory) fp =
     bind_err (o16 self (int tag)) (\<lambda>a.
     bind_err (o16 self (int typ)) (\<lambda>b.
     bind_err (o32 self (int count)) (\<lambda>c.
       (case v of
          PyStr s \<Rightarrow> pass2 self directory (fp_write fp (a @ b @ c @ s))
        | _ \<Rightarrow> Inl TypeError))))"

text \<open>Pass 3: the external data, each followed by a zero byte when its length is odd.\<close>

fun pass3 :: "dirent list \<Rightarrow> stream \<Rightarrow> error + stream" where
  "pass3 [] fp = Inr fp"
| "pass3 ((tag, typ, count, v, data) # directory) fp =
     bind_err (fp_write_val fp data) (\<lambda>fp1.
     bind_err (py_len data) (\<lambda>len.
       pass3 directory (if odd len then fp_write fp1 [0] else fp1)))"

definition save :: "float_codec \<Rightarrow> ifd \<Rightarrow> stream \<Rightarrow> error + (nat \<times> stream)" where
  "save fc self fp =
     (let tags = sort (dict_keys (tagdata self)) in
      bind_err (o16 self (int (length tags))) (\<lambda>c.
        (let fp1 = fp_write fp c;
             offset = fp_tell fp1 + length tags * 12 + 4
         in bind_err (pass1 fc self tags offset) (\<lambda>(directory, offset1).
            bind_err (pass2 self directory fp1) (\<lambda>fp2.
            bind_err (pass3 directory (fp_write fp2 [0, 0, 0, 0])) (\<lambda>fp3.
              Inr (offset1, fp3)))))))"

section \<open>The image\<close>

text \<open>
  The state of an \<^verbatim>\<open>M9DNG\<close> after its constructor: the source stream \<^verbatim>\<open>fp\<close>, the
  prefix and byte order, the three directories and the two strips, each strip a pair of
  Python values as the directories decode them.
\<close>

record m9dng =
  dng_fp :: stream
  dng_prefix :: "byte list"
  dng_endian :: byteorder
  preview_ifd :: ifd
  main_ifd :: ifd
  exif_ifd :: ifd
  preview_strip :: "pyval \<times> pyval"
  main_strip :: "pyval \<times> pyval"

text \<open>\<^verbatim>\<open>x[0]\<close>\<close>

fun index0 :: "pyval \<Rightarrow> error + pyval" where
  "index0 (PyTuple []) = Inl IndexError"
| "index0 (PyTuple (x # xs)) = Inr x"
| "index0 (PyStr []) = Inl IndexError"
| "index0 (PyStr (b # bs)) = Inr (PyStr [b])"
| "index0 _ = Inl TypeError"

text \<open>A new directory for the prefix, loaded from the stream at the position \<open>p\<close>.\<close>

definition load_ifd_at :: "float_codec \<Rightarrow> byte list \<Rightarrow> stream \<Rightarrow> pyval \<Rightarrow> error + (ifd \<times> stream)" where
  "load_ifd_at fc pfx fp p =
     bind_err (fp_seek fp p) (\<lambda>fp1.
     bind_err (ImageFileDirectory pfx) (\<lambda>d.
     load fc d fp1))"

definition M9DNG :: "float_codec \<Rightarrow> stream \<Rightarrow> error + m9dng" where
  "M9DNG fc fp0 =
     (let (ifh, fp1) = fp_read fp0 8 in
      if take 4 ifh \<notin> set PREFIXES then Inl (SyntaxError ''not a TIFF file'')
      else
        (let pfx = take 2 ifh in
         bind_err (if pfx = MM then Inr Big
                   else if pfx = II then Inr Little
                   else Inl (SyntaxError ''not a TIFF IFD'')) (\<lambda>bo.
         bind_err ((case bo of Big \<Rightarrow> ib32 | Little \<Rightarrow> il32) ifh 4) (\<lambda>off.
         bind_err (load_ifd_at fc pfx fp1 (PyInt off)) (\<lambda>(preview, fp2).
         bind_err (getitem fc preview SUBIFDS) (\<lambda>subifds.
         bind_err (index0 subifds) (\<lambda>p1.
         bind_err (load_ifd_at fc pfx fp2 p1) (\<lambda>(main, fp3).
         bind_err (getitem fc preview EXIFIFD) (\<lambda>exififd.
         bind_err (index0 exififd) (\<lambda>p2.
         bind_err (load_ifd_at fc pfx fp3 p2) (\<lambda>(exif, fp4).
         bind_err (getitem fc preview STRIPOFFSETS) (\<lambda>po.
         bind_err (index0 po) (\<lambda>po0.
         bind_err (getitem fc preview STRIPBYTECOUNTS) (\<lambda>pc.
         bind_err (index0 pc) (\<lambda>pc0.
         bind_err (getitem fc main STRIPOFFSETS) (\<lambda>mo.
         bind_err (index0 mo) (\<lambda>mo0.
         bind_err (getitem fc main STRIPBYTECOUNTS) (\<lambda>mc.
         bind_err (index0 mc) (\<lambda>mc0.
           Inr \<lparr>dng_fp = fp4, dng_prefix = pfx, dng_endian = bo,
                preview_ifd = preview, main_ifd = main, exif_ifd = exif,
                preview_strip = (po0, pc0), main_strip = (mo0, mc0)\<rparr>)))))))))))))))))))"

subsection \<open>Saving the image\<close>

text \<open>
  The destination offsets that \<^verbatim>\<open>M9DNG.save\<close> computes first, from the lengths of the
  preview strip and of the main strip.
\<close>

definition save_offsets :: "int \<Rightarrow> int \<Rightarrow> int \<times> int \<times> int" where
  "save_offsets preview_length main_length =
     (let dest_preview_offset = 8;
          dest_main_offset = dest_preview_offset + preview_length;
          dest_exififd_offset = dest_main_offset + main_length;
          dest_exififd_offset =
            (if dest_exififd_offset mod 2 \<noteq> 0 then dest_exififd_offset + 1
             else dest_exififd_offset)
      in (dest_preview_offset, dest_main_offset, dest_exififd_offset))"

text \<open>
  The length of a strip as a summand of \<^verbatim>\<open>8 + self.preview_strip[1]\<close>: an integer, or
  \<^verbatim>\<open>TypeError\<close> for a string or a tuple. The sum with a float is floating-point
  arithmetic, which is outside the model: \<open>None\<close>.
\<close>

fun strip_length :: "pyval \<Rightarrow> (error + int) option" where
  "strip_length (PyInt i) = Some (Inr i)"
| "strip_length (PyFloat x) = None"
| "strip_length _ = Some (Inl TypeError)"

definition set_tag :: "float_codec \<Rightarrow> ifd \<Rightarrow> nat \<Rightarrow> pyval \<Rightarrow> error + ifd" where
  "set_tag fc d tag v = (case setitem fc d tag v of (Inl e, d1) \<Rightarrow> Inl e | (Inr u, d1) \<Rightarrow> Inr d1)"

definition dng_o16 :: "m9dng \<Rightarrow> int \<Rightarrow> error + byte list" where
  "dng_o16 self = (case dng_endian self of Big \<Rightarrow> ob16 | Little \<Rightarrow> ol16)"

definition dng_o32 :: "m9dng \<Rightarrow> int \<Rightarrow> error + byte list" where
  "dng_o32 self = (case dng_endian self of Big \<Rightarrow> ob32 | Little \<Rightarrow> ol32)"

definition round_even :: "nat \<Rightarrow> nat" where
  "round_even x = (if x mod 2 \<noteq> 0 then x + 1 else x)"

definition save_body :: "float_codec \<Rightarrow> m9dng \<Rightarrow> stream \<Rightarrow> int \<Rightarrow> int \<Rightarrow> error + (m9dng \<times> stream)" where
  "save_body fc self fp preview_length main_length =
     (let (dest_preview_offset, dest_main_offset, dest_exififd_offset) =
            save_offsets preview_length main_length in
      bind_err (set_tag fc (preview_ifd self) STRIPOFFSETS (PyTuple [PyInt dest_preview_offset])) (\<lambda>preview1.
      bind_err (set_tag fc preview1 EXIFIFD (PyTuple [PyInt dest_exififd_offset])) (\<lambda>preview2.
      bind_err (set_tag fc (main_ifd self) STRIPOFFSETS (PyTuple [PyInt dest_main_offset])) (\<lambda>main1.
      bind_err (dng_o16 self 42) (\<lambda>magic.
        (let fp1 = fp_write fp (dng_prefix self @ magic @ [0, 0, 0, 0]) in
      bind_err (fp_seek (dng_fp self) (fst (preview_strip self))) (\<lambda>src1.
      bind_err (fp_seek fp1 (PyInt dest_preview_offset)) (\<lambda>fp2.
        (let (preview_bytes, src2) = fp_read src1 preview_length;
             fp3 = fp_write fp2 preview_bytes in
      bind_err (fp_seek src2 (fst (main_strip self))) (\<lambda>src3.
      bind_err (fp_seek fp3 (PyInt dest_main_offset)) (\<lambda>fp4.
        (let (main_bytes, src4) = fp_read src3 main_length;
             fp5 = fp_write fp4 main_bytes in
      bind_err (fp_seek fp5 (PyInt dest_exififd_offset)) (\<lambda>fp6.
      bind_err (save fc (exif_ifd self) fp6) (\<lambda>(exif_end, fp7).
        (let dest_subifd1_offset = round_even exif_end in
      bind_err (fp_seek fp7 (PyInt (int dest_subifd1_offset))) (\<lambda>fp8.
      bind_err (save fc main1 fp8) (\<lambda>(main_end, fp9).
        (let dest_ifd0_offset = round_even main_end in
      bind_err (set_tag fc preview2 SUBIFDS (PyTuple [PyInt (int dest_subifd1_offset)])) (\<lambda>preview3.
      bind_err (fp_seek fp9 (PyInt (int dest_ifd0_offset))) (\<lambda>fp10.
      bind_err (save fc preview3 fp10) (\<lambda>(preview_end, fp11).
      bind_err (fp_seek fp11 (PyInt 4)) (\<lambda>fp12.
      bind_err (dng_o32 self (int dest_ifd0_offset)) (\<lambda>ptr.
        Inr (self\<lparr>dng_fp := src4, preview_ifd := preview3, main_ifd := main1\<rparr>,
             fp_write fp12 ptr))))))))))))))))))))))))"

definition M9DNG_save :: "float_codec \<Rightarrow> m9dng \<Rightarrow> stream \<Rightarrow> (error + (m9dng \<times> stream)) option" where
  "M9DNG_save fc self fp =
     (case strip_length (snd (preview_strip self)) of
        None \<Rightarrow> None
      | Some (Inl e) \<Rightarrow> Some (Inl e)
      | Some (Inr preview_length) \<Rightarrow>
          (case strip_length (snd (main_strip self)) of
             None \<Rightarrow> None
           | Some (Inl e) \<Rightarrow> Some (Inl e)
           | Some (Inr main_length) \<Rightarrow> Some (save_body fc self fp preview_length main_length)))"

text \<open>
  Closed examples involve no float: they take the codec \<open>fc0\<close>, which is never
  consulted, and start from the empty little-endian directory \<open>ifd_II\<close>.
\<close>

definition fc0 :: float_codec where
  "fc0 = \<lparr>pack_fl = (\<lambda>f bo v. Inl StructError), unpack_fl = (\<lambda>f bo bs. 0)\<rparr>"

definition ifd_II :: ifd where
  "ifd_II = \<lparr>prefix = II, endian = Little, tagdata = [], tagtype = [], next_ifd = None\<rparr>"

section \<open>The layout of a saved directory, after the specification\<close>

text \<open>
  The specification describes what \<^verbatim>\<open>save\<close> writes for the tags in ascending order,
  each with its field type, its element count and its payload: a payload of exactly 4
  bytes is emitted inline, a shorter one is zero-padded to 4 bytes inline, a longer one is
  stored externally at the running cursor, which then advances by the payload's length,
  rounded up to an even boundary. The cursor starts right after the directory block,
  \<open>2 + 12 * n + 4\<close> bytes from the directory's start. The block is the 2-byte count,
  the 12-byte records, a 4-byte zero terminator, then the external payloads, each followed
  by one zero byte if its length is odd. These definitions follow that description; the
  theorem of claim C7 compares them with \<open>save\<close>.
\<close>

type_synonym tag_entry = "nat \<times> nat \<times> nat \<times> byte list"

definition even_up :: "nat \<Rightarrow> nat" where
  "even_up x = (if even x then x else x + 1)"

definition u16 :: "byteorder \<Rightarrow> nat \<Rightarrow> byte list" where
  "u16 bo x = ordered bo (le_bytes 2 (int x))"

definition u32 :: "byteorder \<Rightarrow> nat \<Rightarrow> byte list" where
  "u32 bo x = ordered bo (le_bytes 4 (int x))"

fun value_fields :: "byteorder \<Rightarrow> nat \<Rightarrow> tag_entry list \<Rightarrow> byte list list" where
  "value_fields bo cursor [] = []"
| "value_fields bo cursor ((tag, ty, n, payload) # es) =
     (if length payload = 4 then payload # value_fields bo cursor es
      else if length payload < 4 then
        (payload @ replicate (4 - length payload) 0) # value_fields bo cursor es
      else u32 bo cursor # value_fields bo (even_up (cursor + length payload)) es)"

fun end_cursor :: "nat \<Rightarrow> tag_entry list \<Rightarrow> nat" where
  "end_cursor cursor [] = cursor"
| "end_cursor cursor ((tag, ty, n, payload) # es) =
     (if length payload > 4 then end_cursor (even_up (cursor + length payload)) es
      else end_cursor cursor es)"

definition external_payload :: "tag_entry \<Rightarrow> byte list" where
  "external_payload e =
     (case e of (tag, ty, n, payload) \<Rightarrow>
        if length payload > 4 then payload @ (if odd (length payload) then [0] else [])
        else [])"

definition record12 :: "byteorder \<Rightarrow> tag_entry \<Rightarrow> byte list \<Rightarrow> byte list" where
  "record12 bo e v = (case e of (tag, ty, n, payload) \<Rightarrow> u16 bo tag @ u16 bo ty @ u32 bo n @ v)"

definition directory_block :: "byteorder \<Rightarrow> nat \<Rightarrow> tag_entry list \<Rightarrow> byte list" where
  "directory_block bo start es =
     u16 bo (length es) @
     concat (map2 (record12 bo) es (value_fields bo (start + 2 + 12 * length es + 4) es)) @
     [0, 0, 0, 0] @
     concat (map external_payload es)"

text \<open>
  The entries of a directory as the specification has them: for each tag, in ascending
  order, the stored type, the element count \<open>len(payload) / width\<close> and the payload.
\<close>

definition is_entry_of :: "ifd \<Rightarrow> tag_entry \<Rightarrow> bool" where
  "is_entry_of self e =
     (case e of (tag, ty, n, payload) \<Rightarrow>
        dict_get (tagtype self) tag = Inr ty \<and>
        dict_get (tagdata self) tag = Inr (PyStr payload) \<and>
        (case load_dispatch ty of None \<Rightarrow> False | Some (w, loader) \<Rightarrow> n = length payload div w))"

definition entries_of :: "ifd \<Rightarrow> tag_entry list \<Rightarrow> bool" where
  "entries_of self es =
     (map fst es = sort (dict_keys (tagdata self)) \<and> list_all (is_entry_of self) es)"

section \<open>Example streams\<close>



definition hdphoto_stream :: stream where
  "hdphoto_stream = Stream [
      0x49, 0x49, 0xBC, 0x00, 0x08, 0x00, 0x00, 0x00,
      0x04, 0x00, 0x11, 0x01, 0x04, 0x00, 0x01, 0x00,
      0x00, 0x00, 0x6E, 0x00, 0x00, 0x00, 0x17, 0x01,
      0x04, 0x00, 0x01, 0x00, 0x00, 0x00, 0x03, 0x00,
      0x00, 0x00, 0x4A, 0x01, 0x04, 0x00, 0x01, 0x00,
      0x00, 0x00, 0x3E, 0x00, 0x00, 0x00, 0x69, 0x87,
      0x04, 0x00, 0x01, 0x00, 0x00, 0x00, 0x5C, 0x00,
      0x00, 0x00, 0x00, 0x00, 0x00, 0x00, 0x02, 0x00,
      0x11, 0x01, 0x04, 0x00, 0x01, 0x00, 0x00, 0x00,
      0x71, 0x00, 0x00, 0x00, 0x17, 0x01, 0x04, 0x00,
      0x01, 0x00, 0x00, 0x00, 0x05, 0x00, 0x00, 0x00,
      0x00, 0x00, 0x00, 0x00, 0x01, 0x00, 0x27, 0x88,
      0x03, 0x00, 0x01, 0x00, 0x00, 0x00, 0xA0, 0x00,
      0x00, 0x00, 0x00, 0x00, 0x00, 0x00, 0xAA, 0xBB,
      0xCC, 0x01, 0x02, 0x03, 0x04, 0x05] 0"

definition two_strip_stream :: stream where
  "two_strip_stream = Stream [
      0x49, 0x49, 0x2A, 0x00, 0x08, 0x00, 0x00, 0x00,
      0x04, 0x00, 0x11, 0x01, 0x04, 0x00, 0x02, 0x00,
      0x00, 0x00, 0x76, 0x00, 0x00, 0x00, 0x17, 0x01,
      0x04, 0x00, 0x02, 0x00, 0x00, 0x00, 0x7E, 0x00,
      0x00, 0x00, 0x4A, 0x01, 0x04, 0x00, 0x01, 0x00,
      0x00, 0x00, 0x3E, 0x00, 0x00, 0x00, 0x69, 0x87,
      0x04, 0x00, 0x01, 0x00, 0x00, 0x00, 0x5C, 0x00,
      0x00, 0x00, 0x00, 0x00, 0x00, 0x00, 0x02, 0x00,
      0x11, 0x01, 0x04, 0x00, 0x01, 0x00, 0x00, 0x00,
      0x71, 0x00, 0x00, 0x00, 0x17, 0x01, 0x04, 0x00,
      0x01, 0x00, 0x00, 0x00, 0x05, 0x00, 0x00, 0x00,
      0x00, 0x00, 0x00, 0x00, 0x01, 0x00, 0x27, 0x88,
      0x03, 0x00, 0x01, 0x00, 0x00, 0x00, 0xA0, 0x00,
      0x00, 0x00, 0x00, 0x00, 0x00, 0x00, 0xAA, 0xBB,
      0xCC, 0x01, 0x02, 0x03, 0x04, 0x05, 0x6E, 0x00,
      0x00, 0x00, 0x70, 0x00, 0x00, 0x00, 0x02, 0x00,
      0x00, 0x00, 0x01, 0x00, 0x00, 0x00] 0"

definition xmp_ascii_stream :: stream where
  "xmp_ascii_stream = Stream [
      0x01, 0x00, 0xBC, 0x02, 0x02, 0x00, 0x04, 0x00,
      0x00, 0x00, 0x61, 0x62, 0x63, 0x00, 0x05, 0x00,
      0x00, 0x00] 0"

definition hdphoto_image :: m9dng where
  "hdphoto_image =
     \<lparr>dng_fp = Stream (content hdphoto_stream) 110, dng_prefix = II, dng_endian = Little,
      preview_ifd = ifd_II
        \<lparr>tagdata := [(273, PyStr [110, 0, 0, 0]), (279, PyStr [3, 0, 0, 0]),
                     (330, PyStr [62, 0, 0, 0]), (34665, PyStr [92, 0, 0, 0])],
         tagtype := [(273, 4), (279, 4), (330, 4), (34665, 4)], next_ifd := Some 0\<rparr>,
      main_ifd = ifd_II
        \<lparr>tagdata := [(273, PyStr [113, 0, 0, 0]), (279, PyStr [5, 0, 0, 0])],
         tagtype := [(273, 4), (279, 4)], next_ifd := Some 0\<rparr>,
      exif_ifd = ifd_II
        \<lparr>tagdata := [(34855, PyStr [160, 0])], tagtype := [(34855, 3)], next_ifd := Some 0\<rparr>,
      preview_strip = (PyInt 110, PyInt 3),
      main_strip = (PyInt 113, PyInt 5)\<rparr>"

definition two_strip_image :: m9dng where
  "two_strip_image =
     \<lparr>dng_fp = Stream (content two_strip_stream) 110, dng_prefix = II, dng_endian = Little,
      preview_ifd = ifd_II
        \<lparr>tagdata := [(273, PyStr [110, 0, 0, 0, 112, 0, 0, 0]),
                     (279, PyStr [2, 0, 0, 0, 1, 0, 0, 0]),
                     (330, PyStr [62, 0, 0, 0]), (34665, PyStr [92, 0, 0, 0])],
         tagtype := [(273, 4), (279, 4), (330, 4), (34665, 4)], next_ifd := Some 0\<rparr>,
      main_ifd = ifd_II
        \<lparr>tagdata := [(273, PyStr [113, 0, 0, 0]), (279, PyStr [5, 0, 0, 0])],
         tagtype := [(273, 4), (279, 4)], next_ifd := Some 0\<rparr>,
      exif_ifd = ifd_II
        \<lparr>tagdata := [(34855, PyStr [160, 0])], tagtype := [(34855, 3)], next_ifd := Some 0\<rparr>,
      preview_strip = (PyInt 110, PyInt 2),
      main_strip = (PyInt 113, PyInt 5)\<rparr>"

definition bigtiff_stream :: stream where
  "bigtiff_stream = Stream [0x49, 0x49, 0x2B, 0x00, 0x08, 0x00, 0x00, 0x00,
                                 0x10, 0x00, 0x00, 0x00, 0x00, 0x00, 0x00, 0x00] 0"

definition xmp_undefined_stream :: stream where
  "xmp_undefined_stream = Stream [
      0x01, 0x00, 0xBC, 0x02, 0x07, 0x00, 0x04, 0x00,
      0x00, 0x00, 0x61, 0x62, 0x63, 0x00, 0x00, 0x00,
      0x00, 0x00] 0"

section \<open>Properties of the codec\<close>

lemma length_le_bytes [simp]: "length (le_bytes n i) = n"
  by (induction n arbitrary: i) auto


lemma ordered_ordered [simp]: "ordered bo (ordered bo bs) = bs"
  by (cases bo) (simp_all add: ordered_def)

lemma length_ordered [simp]: "length (ordered bo bs) = length bs"
  by (cases bo) (simp_all add: ordered_def)








lemma fmt_size_pos [simp]: "0 < fmt_size f"
  by (cases f) auto



lemma store_dispatch_simps:
  "store_dispatch 1 = Some store_unsigned_byte"
  "store_dispatch 2 = Some store_string"
  "store_dispatch 3 = Some store_unsigned_short"
  "store_dispatch 4 = Some store_unsigned_long"
  "store_dispatch 5 = Some unknown"
  "store_dispatch 6 = Some store_signed_byte"
  "store_dispatch 7 = Some store_undefined"
  "store_dispatch 8 = Some store_signed_short"
  "store_dispatch 9 = Some store_signed_long"
  "store_dispatch 10 = Some unknown"
  "store_dispatch 11 = Some store_float"
  "store_dispatch 12 = Some store_double"
  "store_dispatch 13 = Some store_ifds"
  "store_dispatch (Suc 0) = Some store_unsigned_byte"
  by (simp_all add: store_dispatch_def)







text \<open>
  Claim C5. The code at the rational payload of the four words 1, 2, 3, 4 (element count
  2): the loader pairs every word with its successor and gives the three pairs (1, 2),
  (2, 3), (3, 4), where the claim has the two disjoint pairs (1, 2), (3, 4).
\<close>

theorem rational_pairs_overlap:
  "decode fc0 ifd_II 5 (PyStr [1, 0, 0, 0, 2, 0, 0, 0, 3, 0, 0, 0, 4, 0, 0, 0]) =
     Inr (PyTuple [PyTuple [PyInt 1, PyInt 2], PyTuple [PyInt 2, PyInt 3], PyTuple [PyInt 3, PyInt 4]])"
  by code_simp

lemma dict_get_key: "dict_get d k = Inr v \<Longrightarrow> k \<in> set (dict_keys d)"
  by (auto simp: dict_get_def dict_keys_def split: option.splits dest: map_of_SomeD intro: rev_image_eqI)

text \<open>
  Claim C6. Assigning to a tag whose stored type is 5 or 10 raises: \<^verbatim>\<open>RuntimeError\<close>
  from \<^verbatim>\<open>unknown\<close> for a tuple or a string, \<^verbatim>\<open>ValueError\<close> for any other value. The
  directory is left as it was.
\<close>

theorem setitem_rational_raises:
  assumes "dict_get (tagtype self) tag = Inr typ" and "typ = 5 \<or> typ = 10"
  shows "setitem fc self tag v =
           (Inl (if is_tuple_or_str v then RuntimeError v else ValueError), self)"
  using assms dict_get_key[OF assms(1)]
  by (auto simp: setitem_def bind_err_def store_dispatch_simps unknown_def)

theorem setitem_rational_raises_witness:
  "dict_get (tagtype (ifd_II\<lparr>tagtype := [(33434, 5)], tagdata := [(33434, PyStr [1, 0, 0, 0, 2, 0, 0, 0])]\<rparr>)) 33434 = Inr 5 \<and>
   ((5::nat) = 5 \<or> (5::nat) = 10) \<and>
   setitem fc0 (ifd_II\<lparr>tagtype := [(33434, 5)], tagdata := [(33434, PyStr [1, 0, 0, 0, 2, 0, 0, 0])]\<rparr>) 33434
       (PyTuple [PyTuple [PyInt 1, PyInt 4]]) =
     (Inl (RuntimeError (PyTuple [PyTuple [PyInt 1, PyInt 4]])),
      ifd_II\<lparr>tagtype := [(33434, 5)], tagdata := [(33434, PyStr [1, 0, 0, 0, 2, 0, 0, 0])]\<rparr>)"
proof -
  let ?d = "ifd_II\<lparr>tagtype := [(33434, 5)], tagdata := [(33434, PyStr [1, 0, 0, 0, 2, 0, 0, 0])]\<rparr>"
  have a: "dict_get (tagtype ?d) 33434 = Inr 5" by code_simp
  have b: "(5::nat) = 5 \<or> (5::nat) = 10" by simp
  have c: "is_tuple_or_str (PyTuple [PyTuple [PyInt 1, PyInt 4]])" by simp
  show ?thesis using setitem_rational_raises[OF a b, of fc0 "PyTuple [PyTuple [PyInt 1, PyInt 4]]"]
    unfolding if_P[OF c] by (intro conjI a b)
qed

section \<open>Properties of loading\<close>

lemma bind_err_Inl: "bind_err m f = Inl e \<longleftrightarrow> m = Inl e \<or> (\<exists>x. m = Inr x \<and> f x = Inl e)"
  by (cases m) (auto simp: bind_err_def)

lemma bind_err_Inr: "bind_err m f = Inr y \<longleftrightarrow> (\<exists>x. m = Inr x \<and> f x = Inr y)"
  by (cases m) (auto simp: bind_err_def)

lemma bind_err_simps [simp]: "bind_err (Inl e) f = Inl e" "bind_err (Inr x) f = f x"
  by (simp_all add: bind_err_def)

lemma ib32_fails: "ib32 c off = Inl StructError"
  by (simp add: ib32_def unpack_one_def slice_def)








lemma M9DNG_hdphoto: "M9DNG fc0 hdphoto_stream = Inr hdphoto_image"
  by code_simp

lemma M9DNG_two_strip: "M9DNG fc0 two_strip_stream = Inr two_strip_image"
  by code_simp

lemma dict_get_set_same: "dict_get (dict_set d k v) k = Inr v"
  by (induction d) (auto simp: dict_get_def)

text \<open>
  Claim C3, as amended. After a load that returns, the tag 700 has the stored type 1
  whenever it is stored at all, whatever type it was read with.
\<close>

theorem xmp_type_is_byte:
  assumes "load fc self fp = Inr (self1, fp1)" and "XMP \<in> set (dict_keys (tagtype self1))"
  shows "dict_get (tagtype self1) XMP = Inr 1"
proof -
  obtain c fpa where r: "fp_read fp 2 = (c, fpa)" by (cases "fp_read fp 2")
  from assms(1) obtain count where c: "i16 (reset self) c 0 = Inr count"
    by (auto simp: load_def r Let_def bind_err_Inr)
  from assms(1) obtain s1 fpb where
    le: "load_entries fc (nat count) (reset self) fpa = Inr (s1, fpb)"
    by (auto simp: load_def r c Let_def bind_err_Inr)
  obtain c4 fpc where r4: "fp_read fpb 4 = (c4, fpc)" by (cases "fp_read fpb 4")
  from assms(1) have t: "tagtype self1 = (if XMP \<in> set (dict_keys (tagtype s1))
                             then dict_set (tagtype s1) XMP 1 else tagtype s1)"
    by (auto simp: load_def r c le r4 Let_def bind_err_Inr split: if_splits)
  show ?thesis
  proof (cases "XMP \<in> set (dict_keys (tagtype s1))")
    case True
    then show ?thesis by (simp add: t dict_get_set_same)
  next
    case False
    then show ?thesis using assms(2) t by simp
  qed
qed

theorem xmp_type_is_byte_witness:
  "unpack_entry Little (slice (content xmp_undefined_stream) 2 14) = Inr (700, 7, 4, [0x61, 0x62, 0x63, 0x00]) \<and>
   \<not> isl (load fc0 ifd_II xmp_undefined_stream) \<and>
   XMP \<in> set (dict_keys (tagtype (fst (projr (load fc0 ifd_II xmp_undefined_stream))))) \<and>
   dict_get (tagtype (fst (projr (load fc0 ifd_II xmp_undefined_stream)))) XMP = Inr 1"
proof -
  have a: "\<not> isl (load fc0 ifd_II xmp_undefined_stream)" by code_simp
  then have b: "load fc0 ifd_II xmp_undefined_stream =
      Inr (fst (projr (load fc0 ifd_II xmp_undefined_stream)), snd (projr (load fc0 ifd_II xmp_undefined_stream)))"
    by (cases "load fc0 ifd_II xmp_undefined_stream") auto
  have c: "XMP \<in> set (dict_keys (tagtype (fst (projr (load fc0 ifd_II xmp_undefined_stream)))))"
    by code_simp
  have d: "unpack_entry Little (slice (content xmp_undefined_stream) 2 14) = Inr (700, 7, 4, [0x61, 0x62, 0x63, 0x00])"
    by code_simp
  show ?thesis using a c d xmp_type_is_byte[OF b c] by blast
qed

text \<open>
  Claim C3 as stated fails at \<open>xmp_ascii_stream\<close>: the entry of the tag 700 is read
  with the type 2, and the stored type after the load is 1, not 2.
\<close>

theorem xmp_ascii_type_rewritten:
  "unpack_entry Little (slice (content xmp_ascii_stream) 2 14) = Inr (700, 2, 4, [0x61, 0x62, 0x63, 0x00]) \<and>
   \<not> isl (load fc0 ifd_II xmp_ascii_stream) \<and>
   dict_get (tagtype (fst (projr (load fc0 ifd_II xmp_ascii_stream)))) XMP = Inr 1 \<and>
   dict_get (tagtype (fst (projr (load fc0 ifd_II xmp_ascii_stream)))) XMP \<noteq> Inr 2"
  by code_simp

section \<open>Properties of the image\<close>


lemma struct_unpack_error:
  "struct_unpack fc f bo dv data = Inl e \<Longrightarrow> e = TypeError \<or> e = StructError"
  by (cases data) (auto simp: struct_unpack_def Let_def split: if_splits)

lemma loader_error:
  assumes "load_dispatch ty = Some (w, loader)" "loader fc self data = Inl e"
  shows "e = TypeError \<or> e = StructError \<or> e = NameError ''load_unsigned_long''"
proof -
  from assms(1) have "loader \<in> {load_unsigned_byte, load_string, load_unsigned_short,
      load_unsigned_long, load_unsigned_rational, load_signed_byte, load_undefined,
      load_signed_short, load_signed_long, load_signed_rational, load_float, load_double,
      load_ifds}"
    by (auto simp: load_dispatch_def split: if_splits)
  then show ?thesis using assms(2)
    by (auto simp: load_unsigned_byte_def load_string_def load_unsigned_short_def
      load_unsigned_long_def load_unsigned_rational_def load_signed_byte_def load_undefined_def
      load_signed_short_def load_signed_long_def load_signed_rational_def load_float_def
      load_double_def load_ifds_def bind_err_Inl dest: struct_unpack_error)
qed

lemma dict_get_error: "dict_get d k = Inl e \<Longrightarrow> e = KeyError"
  by (auto simp: dict_get_def split: option.splits)

lemma getitem_error:
  assumes "getitem fc self tag = Inl e"
  shows "e = KeyError \<or> e = TypeError \<or> e = StructError \<or> e = NameError ''load_unsigned_long''"
  using assms
  by (auto simp: getitem_def bind_err_Inl split: option.splits dest: dict_get_error loader_error)

lemma getitem_no_syntax: "getitem fc self tag \<noteq> Inl (SyntaxError s)"
  using getitem_error[of fc self tag "SyntaxError s"] by auto

lemma unpack_one_error: "unpack_one f bo s = Inl e \<Longrightarrow> e = StructError"
  by (auto simp: unpack_one_def split: if_splits)

lemma i16_error: "i16 self c off = Inl e \<Longrightarrow> e = StructError"
  by (cases "endian self") (auto simp: i16_def il16_def ib16_def dest: unpack_one_error)

lemma i32_error: "i32 self c off = Inl e \<Longrightarrow> e = StructError"
  by (cases "endian self") (auto simp: i32_def il32_def ib32_def dest: unpack_one_error)

lemma i16_no_syntax: "i16 self c off \<noteq> Inl (SyntaxError s)"
  using i16_error[of self c off "SyntaxError s"] by auto

lemma i32_no_syntax: "i32 self c off \<noteq> Inl (SyntaxError s)"
  using i32_error[of self c off "SyntaxError s"] by auto

lemma unpack_entry_error: "unpack_entry bo r = Inl e \<Longrightarrow> e = StructError"
  by (auto simp: unpack_entry_def split: if_splits)

lemma load_entry_no_syntax: "load_entry fc self fp \<noteq> Inl (SyntaxError s)"
proof
  assume a: "load_entry fc self fp = Inl (SyntaxError s)"
  obtain r fp1 where r: "fp_read fp 12 = (r, fp1)" by (cases "fp_read fp 12")
  show False
  proof (cases "unpack_entry (endian self) r")
    case (Inl e)
    then show ?thesis using a unpack_entry_error[OF Inl] by (simp add: load_entry_def r)
  next
    case (Inr q)
    obtain tag ty n data where q: "q = (tag, ty, n, data)" by (cases q)
    show ?thesis
    proof (cases "load_dispatch ty")
      case None
      then show ?thesis using a by (simp add: load_entry_def r Inr q)
    next
      case (Some p)
      obtain w loader where p: "p = (w, loader)" by (cases p)
      obtain data1 fp3 where f: "fetch_value self fp1 (w * n) data = (data1, fp3)"
        by (cases "fetch_value self fp1 (w * n) data")
      show ?thesis using a
        by (auto simp: load_entry_def r Inr q Some p f Let_def bind_err_Inl getitem_no_syntax
              split: if_splits)
    qed
  qed
qed

lemma load_entries_no_syntax: "load_entries fc k self fp \<noteq> Inl (SyntaxError s)"
proof (induction k arbitrary: self fp)
  case 0
  then show ?case by simp
next
  case (Suc k)
  then show ?case by (auto simp: bind_err_Inl load_entry_no_syntax)
qed

lemma load_no_syntax: "load fc self fp \<noteq> Inl (SyntaxError s)"
proof
  assume a: "load fc self fp = Inl (SyntaxError s)"
  obtain c fp1 where r: "fp_read fp 2 = (c, fp1)" by (cases "fp_read fp 2")
  from a show False
    by (auto simp: load_def r Let_def bind_err_Inl load_entries_no_syntax
          i16_no_syntax i32_no_syntax split: prod.splits)
qed

lemma index0_error: "index0 v = Inl e \<Longrightarrow> e = IndexError \<or> e = TypeError"
  by (induction v rule: index0.induct) auto

lemma fp_seek_error: "fp_seek fp v = Inl e \<Longrightarrow> e = IOError \<or> e = TypeError"
  by (cases fp; cases v) (auto split: if_splits)

lemma load_ifd_at_no_syntax:
  assumes "pfx = MM \<or> pfx = II"
  shows "load_ifd_at fc pfx fp p \<noteq> Inl (SyntaxError s)"
proof -
  have "\<exists>d. ImageFileDirectory pfx = Inr d"
    using assms by (auto simp: ImageFileDirectory_def MM_def II_def Let_def)
  then show ?thesis
    by (auto simp: load_ifd_at_def bind_err_Inl load_no_syntax dest: fp_seek_error)
qed

lemma prefix_two:
  assumes "take 4 ifh \<in> set PREFIXES" shows "take 2 ifh = MM \<or> take 2 ifh = II"
proof -
  have "take 2 ifh = take 2 (take 4 ifh)" by simp
  moreover have "\<And>p. p \<in> set PREFIXES \<Longrightarrow> take 2 p = MM \<or> take 2 p = II"
    by (auto simp: PREFIXES_def MM_def II_def)
  ultimately show ?thesis using assms by metis
qed

text \<open>
  Claim C8, as amended. The constructor raises the format error \<^verbatim>\<open>not a TIFF file\<close>
  exactly when the first four bytes of the header are none of the three entries of
  \<^verbatim>\<open>PREFIXES\<close>.
\<close>

theorem format_error_iff:
  "M9DNG fc fp = Inl (SyntaxError ''not a TIFF file'') \<longleftrightarrow>
     take 4 (fst (fp_read fp 8)) \<notin> set PREFIXES"
proof -
  obtain ifh fp1 where r: "fp_read fp 8 = (ifh, fp1)" by (cases "fp_read fp 8")
  show ?thesis
  proof (cases "take 4 ifh \<in> set PREFIXES")
    case False
    then show ?thesis by (simp add: M9DNG_def r)
  next
    case True
    note p = prefix_two[OF True]
    let ?pfx = "take 2 ifh"
    have "M9DNG fc fp \<noteq> Inl (SyntaxError ''not a TIFF file'')"
    proof
      assume a: "M9DNG fc fp = Inl (SyntaxError ''not a TIFF file'')"
      from a True p show False
        unfolding M9DNG_def r Let_def
        by (auto simp: bind_err_Inl getitem_no_syntax load_ifd_at_no_syntax ib32_fails
              il32_def split: if_splits dest: index0_error unpack_one_error)
    qed
    then show ?thesis using True by (simp add: r)
  qed
qed

theorem format_error_iff_witness:
  "take 4 (fst (fp_read bigtiff_stream 8)) \<notin> set PREFIXES \<and>
   M9DNG fc0 bigtiff_stream = Inl (SyntaxError ''not a TIFF file'')"
proof -
  have a: "take 4 (fst (fp_read bigtiff_stream 8)) \<notin> set PREFIXES" by code_simp
  show ?thesis using a format_error_iff[of fc0 bigtiff_stream] by blast
qed

text \<open>
  Claim C8 as stated fails at \<open>hdphoto_stream\<close>: its first four bytes are
  \<^verbatim>\<open>II\xBC\x00\<close>, neither of the two classic signatures, and the constructor returns
  an image.
\<close>

theorem hdphoto_prefix_accepted:
  "take 4 (fst (fp_read hdphoto_stream 8)) = [0x49, 0x49, 0xBC, 0x00] \<and>
   take 4 (fst (fp_read hdphoto_stream 8)) \<noteq> [0x49, 0x49, 0x2A, 0x00] \<and>
   take 4 (fst (fp_read hdphoto_stream 8)) \<noteq> [0x4D, 0x4D, 0x00, 0x2A] \<and>
   \<not> isl (M9DNG fc0 hdphoto_stream) \<and>
   preview_strip (projr (M9DNG fc0 hdphoto_stream)) = (PyInt 110, PyInt 3) \<and>
   main_strip (projr (M9DNG fc0 hdphoto_stream)) = (PyInt 113, PyInt 5)"
  unfolding M9DNG_hdphoto by code_simp

text \<open>
  Claim C2, as amended. An image that the constructor returns has, as the offset and the
  length of each strip, the first element of what the tags 273 and 279 of the directory
  decode to; the number of elements is not looked at.
\<close>

theorem strips_are_first_elements:
  assumes "M9DNG fc fp = Inr img"
  shows "\<exists>po pc mo mc.
           getitem fc (preview_ifd img) STRIPOFFSETS = Inr po \<and>
           getitem fc (preview_ifd img) STRIPBYTECOUNTS = Inr pc \<and>
           getitem fc (main_ifd img) STRIPOFFSETS = Inr mo \<and>
           getitem fc (main_ifd img) STRIPBYTECOUNTS = Inr mc \<and>
           index0 po = Inr (fst (preview_strip img)) \<and>
           index0 pc = Inr (snd (preview_strip img)) \<and>
           index0 mo = Inr (fst (main_strip img)) \<and>
           index0 mc = Inr (snd (main_strip img))"
proof -
  obtain ifh fp1 where r: "fp_read fp 8 = (ifh, fp1)" by (cases "fp_read fp 8")
  from assms show ?thesis
    unfolding M9DNG_def r Let_def
    by (auto simp: bind_err_Inr split: if_splits)
qed

theorem strips_are_first_elements_witness:
  "\<not> isl (M9DNG fc0 hdphoto_stream) \<and>
   (\<exists>po pc mo mc.
      getitem fc0 (preview_ifd (projr (M9DNG fc0 hdphoto_stream))) STRIPOFFSETS = Inr po \<and>
      getitem fc0 (preview_ifd (projr (M9DNG fc0 hdphoto_stream))) STRIPBYTECOUNTS = Inr pc \<and>
      getitem fc0 (main_ifd (projr (M9DNG fc0 hdphoto_stream))) STRIPOFFSETS = Inr mo \<and>
      getitem fc0 (main_ifd (projr (M9DNG fc0 hdphoto_stream))) STRIPBYTECOUNTS = Inr mc \<and>
      index0 po = Inr (fst (preview_strip (projr (M9DNG fc0 hdphoto_stream)))) \<and>
      index0 pc = Inr (snd (preview_strip (projr (M9DNG fc0 hdphoto_stream)))) \<and>
      index0 mo = Inr (fst (main_strip (projr (M9DNG fc0 hdphoto_stream)))) \<and>
      index0 mc = Inr (snd (main_strip (projr (M9DNG fc0 hdphoto_stream)))))"
proof -
  have a: "\<not> isl (M9DNG fc0 hdphoto_stream)" by (simp add: M9DNG_hdphoto)
  have b: "M9DNG fc0 hdphoto_stream = Inr (projr (M9DNG fc0 hdphoto_stream))"
    by (simp add: M9DNG_hdphoto)
  show ?thesis using a strips_are_first_elements[OF b] by blast
qed

text \<open>
  Claim C2 as stated fails at \<open>two_strip_stream\<close>: the tag 273 of the preview directory
  decodes to the two offsets 110 and 112, the constructor returns an image, and the
  preview strip of the image is the first offset with the first byte count.
\<close>

theorem two_strip_offsets_accepted:
  "\<not> isl (M9DNG fc0 two_strip_stream) \<and>
   getitem fc0 (preview_ifd (projr (M9DNG fc0 two_strip_stream))) STRIPOFFSETS =
     Inr (PyTuple [PyInt 110, PyInt 112]) \<and>
   preview_strip (projr (M9DNG fc0 two_strip_stream)) = (PyInt 110, PyInt 2)"
  unfolding M9DNG_two_strip by code_simp

end
